theory Spec2Isabelle
  imports Complex_Main "HOL-Library.AList"
begin

section \<open>Functions and function vectors (fastlane\_bot/tools/invariants/functions.py)\<close>

text \<open>
  A shallow embedding of the module \<^verbatim>\<open>functions.py\<close>. Python floats are modelled
  as real numbers, so arithmetic is exact: rounding, overflow, infinities and NaN are
  outside the model. Every exception the code can raise is a value of type \<open>error\<close>,
  and a method that may raise returns \<open>error + 'a\<close> with \<open>Inl\<close> for the exception.
\<close>

subsection \<open>Exceptions and arithmetic that may raise\<close>

datatype error = AssertionError | FrozenInstanceError | TypeError | ValueError
  | ZeroDivisionError | UnboundLocalError | AttributeError | KeyError

definition ebind :: "error + 'a \<Rightarrow> ('a \<Rightarrow> error + 'b) \<Rightarrow> error + 'b" where
  "ebind r g = (case r of Inl e \<Rightarrow> Inl e | Inr y \<Rightarrow> g y)"

text \<open>Python's \<^verbatim>\<open>u / v\<close> on floats raises \<^verbatim>\<open>ZeroDivisionError\<close> when \<^verbatim>\<open>v == 0\<close>.\<close>

definition pdiv :: "real \<Rightarrow> real \<Rightarrow> error + real" where
  "pdiv u v = (if v = 0 then Inl ZeroDivisionError else Inr (u / v))"

text \<open>Unary minus applied to the result of a call: the call's exception propagates.\<close>

definition neg :: "error + real \<Rightarrow> error + real" where
  "neg r = ebind r (\<lambda>y. Inr (- y))"

text \<open>
  \<^verbatim>\<open>v or d\<close> for an optional number \<^verbatim>\<open>v\<close>: \<^verbatim>\<open>None\<close> and \<^verbatim>\<open>0.0\<close> are falsy.
\<close>

definition py_or :: "real option \<Rightarrow> real \<Rightarrow> real" where
  "py_or v d = (case v of None \<Rightarrow> d | Some r \<Rightarrow> if r \<noteq> 0 then r else d)"

subsection \<open>The class Function and its variants\<close>

type_synonym method1 = "real \<Rightarrow> error + real"
type_synonym method2 = "real \<Rightarrow> real option \<Rightarrow> error + real"

text \<open>
  An override of \<^verbatim>\<open>p\<close> or \<^verbatim>\<open>pp\<close> as a subclass declares it: with the one
  parameter \<^verbatim>\<open>x\<close>, which is the form \<^verbatim>\<open>def p(self, x)\<close> of the example in the
  class docstring, or with the keyword \<^verbatim>\<open>precision\<close> as well, which is the form
  \<^verbatim>\<open>def p(self, x, *, precision=None)\<close> of the base class.
\<close>

datatype override = Takes_x method1 | Takes_x_precision method2

text \<open>
  One constructor for each dataclass of the module. \<open>SubclassFunction\<close> stands for a
  subclass written by a user of the abstract base class as its docstring describes: it
  supplies \<^verbatim>\<open>f\<close>, its value of the class attribute \<^verbatim>\<open>DERIV_IS_ABS\<close>, and
  optionally its own \<^verbatim>\<open>p\<close> and \<^verbatim>\<open>pp\<close>; it declares no dataclass field.
\<close>

datatype Function =
    QuadraticFunction real real real
  | TrigFunction real real real
  | HyperbolaFunction real real real
  | PriceFunction Function "real option"
  | Price2Function Function "real option"
  | SubclassFunction method1 bool "override option" "override option"

definition DERIV_H :: real where "DERIV_H = 1 / 10 ^ 6"
definition DERIV_ETA :: real where "DERIV_ETA = 1 / 10 ^ 4"

fun DERIV_IS_ABS :: "Function \<Rightarrow> bool" where
  "DERIV_IS_ABS (SubclassFunction uf uabs up upp) = uabs"
| "DERIV_IS_ABS _ = False"

text \<open>Method resolution: the subclass's own \<^verbatim>\<open>p\<close> or \<^verbatim>\<open>pp\<close> when it defines one.\<close>

fun p_override :: "Function \<Rightarrow> override option" where
  "p_override (SubclassFunction uf uabs up upp) = up"
| "p_override _ = None"

fun pp_override :: "Function \<Rightarrow> override option" where
  "pp_override (SubclassFunction uf uabs up upp) = upp"
| "pp_override _ = None"

text \<open>
  The step of \<^verbatim>\<open>df_dx_abs\<close> and \<^verbatim>\<open>d2f_dx2_abs\<close>:
  \<^verbatim>\<open>if h is None: h = self.DERIV_H\<close>, then \<^verbatim>\<open>if precision: h *= precision\<close>.
\<close>

definition step_abs :: "real option \<Rightarrow> real option \<Rightarrow> real" where
  "step_abs h precision =
     (let h1 = (case h of None \<Rightarrow> DERIV_H | Some v \<Rightarrow> v)
      in case precision of
           None \<Rightarrow> h1
         | Some pr \<Rightarrow> if pr \<noteq> 0 then h1 * pr else h1)"

text \<open>
  The derivative methods of the base class. They reach the variant only through
  \<^verbatim>\<open>self.f\<close>, which is their first argument here.
\<close>

definition df_dx_abs :: "method1 \<Rightarrow> real \<Rightarrow> real option \<Rightarrow> real option \<Rightarrow> error + real" where
  "df_dx_abs self_f x h precision =
     (let h2 = step_abs h precision
      in ebind (self_f (x + h2)) (\<lambda>u.
         ebind (self_f (x - h2)) (\<lambda>v.
         pdiv (u - v) (2 * h2))))"

definition d2f_dx2_abs :: "method1 \<Rightarrow> real \<Rightarrow> real option \<Rightarrow> real option \<Rightarrow> error + real" where
  "d2f_dx2_abs self_f x h precision =
     (let h2 = step_abs h precision
      in ebind (self_f (x + h2)) (\<lambda>u.
         ebind (self_f (x - h2)) (\<lambda>v.
         ebind (self_f x) (\<lambda>w.
         pdiv (u + v - 2 * w) (h2 * h2)))))"

definition df_dx_rel :: "method1 \<Rightarrow> real \<Rightarrow> real option \<Rightarrow> real option \<Rightarrow> error + real" where
  "df_dx_rel self_f x eta precision =
     (let eta1 = (case eta of None \<Rightarrow> DERIV_ETA | Some v \<Rightarrow> v)
      in df_dx_abs self_f x (if x \<noteq> 0 then Some (x * eta1) else None) precision)"

definition d2f_dx2_rel :: "method1 \<Rightarrow> real \<Rightarrow> real option \<Rightarrow> real option \<Rightarrow> error + real" where
  "d2f_dx2_rel self_f x eta precision =
     (let eta1 = (case eta of None \<Rightarrow> DERIV_ETA | Some v \<Rightarrow> v)
      in d2f_dx2_abs self_f x (if x \<noteq> 0 then Some (x * eta1) else None) precision)"

text \<open>
  The calls \<^verbatim>\<open>self.p(x, precision=precision)\<close> and
  \<^verbatim>\<open>self.pp(x, precision=precision)\<close>, as \<^verbatim>\<open>df_dx\<close>, \<^verbatim>\<open>PriceFunction.f\<close> and
  \<^verbatim>\<open>Price2Function.f\<close> make them. The call resolves to the override of the subclass
  if there is one and to the body of \<^verbatim>\<open>Function.p\<close> (\<^verbatim>\<open>Function.pp\<close>) otherwise.
  An override declared without the keyword \<^verbatim>\<open>precision\<close> raises \<^verbatim>\<open>TypeError\<close>
  on it.
\<close>

definition p_method :: "Function \<Rightarrow> method1 \<Rightarrow> method2" where
  "p_method self self_f x precision =
     (case p_override self of
        Some (Takes_x q) \<Rightarrow> Inl TypeError
      | Some (Takes_x_precision q) \<Rightarrow> q x precision
      | None \<Rightarrow>
          if DERIV_IS_ABS self then neg (df_dx_abs self_f x None precision)
          else neg (df_dx_rel self_f x None precision))"

definition pp_method :: "Function \<Rightarrow> method1 \<Rightarrow> method2" where
  "pp_method self self_f x precision =
     (case pp_override self of
        Some (Takes_x q) \<Rightarrow> Inl TypeError
      | Some (Takes_x_precision q) \<Rightarrow> q x precision
      | None \<Rightarrow>
          if DERIV_IS_ABS self then neg (d2f_dx2_abs self_f x None precision)
          else neg (d2f_dx2_rel self_f x None precision))"

text \<open>
  The call \<^verbatim>\<open>self.p(x)\<close>, as \<^verbatim>\<open>FunctionVector.p\<close> and a user make it: every form
  of override accepts it, and where the keyword is declared it takes its default
  \<^verbatim>\<open>None\<close>.
\<close>

definition p_method_plain :: "Function \<Rightarrow> method1 \<Rightarrow> method1" where
  "p_method_plain self self_f x =
     (case p_override self of
        Some (Takes_x q) \<Rightarrow> q x
      | Some (Takes_x_precision q) \<Rightarrow> q x None
      | None \<Rightarrow>
          if DERIV_IS_ABS self then neg (df_dx_abs self_f x None None)
          else neg (df_dx_rel self_f x None None))"

text \<open>The method \<^verbatim>\<open>f\<close> of each variant.\<close>

primrec Function_f :: "Function \<Rightarrow> real \<Rightarrow> error + real" where
  "Function_f (QuadraticFunction a b c) = (\<lambda>x. Inr (a * x ^ 2 + b * x + c))"
| "Function_f (TrigFunction amp omega phase) =
     (\<lambda>x. Inr (amp * sin ((omega * x + phase) * pi)))"
| "Function_f (HyperbolaFunction k x0 y0) =
     (\<lambda>x. ebind (pdiv k (x - x0)) (\<lambda>q. Inr (y0 + q)))"
| "Function_f (PriceFunction g pr) = (\<lambda>x. p_method g (Function_f g) x pr)"
| "Function_f (Price2Function g pr) = (\<lambda>x. pp_method g (Function_f g) x pr)"
| "Function_f (SubclassFunction uf uabs up upp) = uf"

text \<open>\<^verbatim>\<open>self.p(x, precision=precision)\<close> and \<^verbatim>\<open>self.p(x)\<close>\<close>

definition Function_p :: "Function \<Rightarrow> real \<Rightarrow> real option \<Rightarrow> error + real" where
  "Function_p self x precision = p_method self (Function_f self) x precision"

definition Function_p_plain :: "Function \<Rightarrow> real \<Rightarrow> error + real" where
  "Function_p_plain self x = p_method_plain self (Function_f self) x"

definition Function_pp :: "Function \<Rightarrow> real \<Rightarrow> real option \<Rightarrow> error + real" where
  "Function_pp self x precision = pp_method self (Function_f self) x precision"

text \<open>\<^verbatim>\<open>df_dx\<close> returns \<^verbatim>\<open>-self.p(x, precision=precision)\<close>.\<close>

definition Function_df_dx :: "Function \<Rightarrow> real \<Rightarrow> real option \<Rightarrow> error + real" where
  "Function_df_dx self x precision = neg (Function_p self x precision)"

definition Function_call :: "Function \<Rightarrow> real \<Rightarrow> error + real" where
  "Function_call self x = Function_f self x"

subsection \<open>Dataclass construction, \<^verbatim>\<open>params\<close> and \<^verbatim>\<open>update\<close>\<close>

text \<open>
  Values that travel through keyword arguments and \<^verbatim>\<open>asdict\<close>: \<^verbatim>\<open>None\<close>, a
  number, a Function object, or a dictionary with string keys. An instance is its class
  together with its field values, as the generated \<^verbatim>\<open>__eq__\<close> compares them.
\<close>

datatype pyval = VNone | VNum real | VObj Function | VDict "(string \<times> pyval) list"

type_synonym fields = "(string \<times> pyval) list"

datatype pyclass = QuadraticFunction_class | TrigFunction_class | HyperbolaFunction_class
  | PriceFunction_class | Price2Function_class
  | SubclassFunction_class method1 bool "override option" "override option"

type_synonym pyinstance = "pyclass \<times> fields"

fun collect :: "(error + 'a) list \<Rightarrow> error + 'a list" where
  "collect [] = Inr []"
| "collect (r # rs) = ebind r (\<lambda>y. ebind (collect rs) (\<lambda>ys. Inr (y # ys)))"

definition opt_val :: "real option \<Rightarrow> pyval" where
  "opt_val v = (case v of None \<Rightarrow> VNone | Some r \<Rightarrow> VNum r)"

primrec class_of :: "Function \<Rightarrow> pyclass" where
  "class_of (QuadraticFunction a b c) = QuadraticFunction_class"
| "class_of (TrigFunction amp omega phase) = TrigFunction_class"
| "class_of (HyperbolaFunction k x0 y0) = HyperbolaFunction_class"
| "class_of (PriceFunction g pr) = PriceFunction_class"
| "class_of (Price2Function g pr) = Price2Function_class"
| "class_of (SubclassFunction uf uabs up upp) = SubclassFunction_class uf uabs up upp"

text \<open>The field values an instance holds.\<close>

primrec fields_of :: "Function \<Rightarrow> fields" where
  "fields_of (QuadraticFunction a b c) = [(''a'', VNum a), (''b'', VNum b), (''c'', VNum c)]"
| "fields_of (TrigFunction amp omega phase) =
     [(''amp'', VNum amp), (''omega'', VNum omega), (''phase'', VNum phase)]"
| "fields_of (HyperbolaFunction k x0 y0) =
     [(''k'', VNum k), (''x0'', VNum x0), (''y0'', VNum y0)]"
| "fields_of (PriceFunction g pr) = [(''func'', VObj g), (''precision'', opt_val pr)]"
| "fields_of (Price2Function g pr) = [(''func'', VObj g), (''precision'', opt_val pr)]"
| "fields_of (SubclassFunction uf uabs up upp) = []"

definition instance_of :: "Function \<Rightarrow> pyinstance" where
  "instance_of self = (class_of self, fields_of self)"

text \<open>
  \<^verbatim>\<open>dataclasses.asdict\<close> recurses into every field that is itself a dataclass
  instance and replaces it by the dictionary of its fields.
\<close>

primrec asdict :: "Function \<Rightarrow> fields" where
  "asdict (QuadraticFunction a b c) = [(''a'', VNum a), (''b'', VNum b), (''c'', VNum c)]"
| "asdict (TrigFunction amp omega phase) =
     [(''amp'', VNum amp), (''omega'', VNum omega), (''phase'', VNum phase)]"
| "asdict (HyperbolaFunction k x0 y0) =
     [(''k'', VNum k), (''x0'', VNum x0), (''y0'', VNum y0)]"
| "asdict (PriceFunction g pr) = [(''func'', VDict (asdict g)), (''precision'', opt_val pr)]"
| "asdict (Price2Function g pr) = [(''func'', VDict (asdict g)), (''precision'', opt_val pr)]"
| "asdict (SubclassFunction uf uabs up upp) = []"

definition Function_params :: "Function \<Rightarrow> fields" where
  "Function_params self = asdict self"

text \<open>The declared fields of each class with their defaults (\<open>None\<close>: no default).\<close>

fun field_decls :: "pyclass \<Rightarrow> (string \<times> pyval option) list" where
  "field_decls QuadraticFunction_class =
     [(''a'', Some (VNum 0)), (''b'', Some (VNum 0)), (''c'', Some (VNum 0))]"
| "field_decls TrigFunction_class =
     [(''amp'', Some (VNum 1)), (''omega'', Some (VNum 1)), (''phase'', Some (VNum 0))]"
| "field_decls HyperbolaFunction_class =
     [(''k'', Some (VNum 1)), (''x0'', Some (VNum 0)), (''y0'', Some (VNum 0))]"
| "field_decls PriceFunction_class = [(''func'', None), (''precision'', Some VNone)]"
| "field_decls Price2Function_class = [(''func'', None), (''precision'', Some VNone)]"
| "field_decls (SubclassFunction_class uf uabs up upp) = []"

text \<open>
  The generated \<^verbatim>\<open>__init__\<close> called with keyword arguments: an undeclared name
  and a missing field without default raise \<^verbatim>\<open>TypeError\<close>.
\<close>

definition dataclass_bind :: "(string \<times> pyval option) list \<Rightarrow> fields \<Rightarrow> error + fields" where
  "dataclass_bind decls kwargs =
     (if \<not> list_all (\<lambda>name. name \<in> set (map fst decls)) (map fst kwargs) then Inl TypeError
      else collect (map (\<lambda>(name, dflt).
             case map_of kwargs name of
               Some v \<Rightarrow> Inr (name, v)
             | None \<Rightarrow> (case dflt of Some d \<Rightarrow> Inr (name, d) | None \<Rightarrow> Inl TypeError))
           decls))"

text \<open>
  Assignment to a field of a dataclass instance: the \<^verbatim>\<open>__setattr__\<close> generated
  for \<^verbatim>\<open>frozen=True\<close> raises \<^verbatim>\<open>FrozenInstanceError\<close>.
\<close>

definition dataclass_setattr :: "bool \<Rightarrow> fields \<Rightarrow> string \<Rightarrow> pyval \<Rightarrow> error + fields" where
  "dataclass_setattr frozen flds name v =
     (if frozen then Inl FrozenInstanceError else Inr (AList.update name v flds))"

definition getattr :: "fields \<Rightarrow> string \<Rightarrow> error + pyval" where
  "getattr flds name = (case map_of flds name of None \<Rightarrow> Inl AttributeError | Some v \<Rightarrow> Inr v)"

fun isinstance_Function :: "pyval \<Rightarrow> bool" where
  "isinstance_Function (VObj g) = True"
| "isinstance_Function _ = False"

text \<open>\<^verbatim>\<open>float(v)\<close>: the number itself; \<^verbatim>\<open>TypeError\<close> for the other values.\<close>

fun py_float :: "pyval \<Rightarrow> error + real" where
  "py_float (VNum r) = Inr r"
| "py_float _ = Inl TypeError"

text \<open>
  \<^verbatim>\<open>PriceFunction.__post_init__\<close> and \<^verbatim>\<open>Price2Function.__post_init__\<close> (the two
  bodies are the same text). Both classes are declared \<^verbatim>\<open>@dataclass(frozen=True)\<close>.
\<close>

definition PriceFunction_post_init :: "fields \<Rightarrow> error + fields" where
  "PriceFunction_post_init self =
     ebind (getattr self ''func'') (\<lambda>fn.
       if \<not> isinstance_Function fn then Inl AssertionError
       else ebind (getattr self ''precision'') (\<lambda>pr.
         if pr \<noteq> VNone
         then ebind (py_float pr) (\<lambda>r. dataclass_setattr True self ''precision'' (VNum r))
         else Inr self))"

definition Price2Function_post_init :: "fields \<Rightarrow> error + fields" where
  "Price2Function_post_init self =
     ebind (getattr self ''func'') (\<lambda>fn.
       if \<not> isinstance_Function fn then Inl AssertionError
       else ebind (getattr self ''precision'') (\<lambda>pr.
         if pr \<noteq> VNone
         then ebind (py_float pr) (\<lambda>r. dataclass_setattr True self ''precision'' (VNum r))
         else Inr self))"

fun post_init :: "pyclass \<Rightarrow> fields \<Rightarrow> error + fields" where
  "post_init PriceFunction_class self = PriceFunction_post_init self"
| "post_init Price2Function_class self = Price2Function_post_init self"
| "post_init _ self = Inr self"

text \<open>Calling a class: bind the arguments, then run \<^verbatim>\<open>__post_init__\<close>.\<close>

definition dataclass_init :: "pyclass \<Rightarrow> fields \<Rightarrow> error + pyinstance" where
  "dataclass_init cl kwargs =
     ebind (dataclass_bind (field_decls cl) kwargs) (\<lambda>self.
     ebind (post_init cl self) (\<lambda>self'. Inr (cl, self')))"

text \<open>\<^verbatim>\<open>{**d1, **d2}\<close>\<close>

definition dict_merge :: "fields \<Rightarrow> fields \<Rightarrow> fields" where
  "dict_merge d1 d2 = foldl (\<lambda>d (name, v). AList.update name v d) d1 d2"

definition Function_update :: "Function \<Rightarrow> fields \<Rightarrow> error + pyinstance" where
  "Function_update self kwargs =
     (let params = dict_merge (Function_params self) kwargs
      in dataclass_init (class_of self) params)"

definition Function_p_func :: "Function \<Rightarrow> pyval \<Rightarrow> error + pyinstance" where
  "Function_p_func self precision =
     dataclass_init PriceFunction_class [(''func'', VObj self), (''precision'', precision)]"

definition Function_pp_func :: "Function \<Rightarrow> pyval \<Rightarrow> error + pyinstance" where
  "Function_pp_func self precision =
     dataclass_init Price2Function_class [(''func'', VObj self), (''precision'', precision)]"

subsection \<open>The class FunctionVector\<close>

text \<open>
  A FunctionVector holds the dictionary \<^verbatim>\<open>vec\<close> of its base class DictVector, in
  insertion order, and a kernel. The class Kernel belongs to another module: its values
  are those of a type parameter \<open>'k\<close>, compared with \<open>=\<close>. A key of \<^verbatim>\<open>vec\<close> is any
  Python value; coefficients are numbers.
\<close>

record 'k FunctionVector =
  vec :: "(pyval \<times> real) list"
  kernel :: "'k option"

text \<open>
  \<^verbatim>\<open>FunctionVector.__post_init__\<close>. The base class's \<^verbatim>\<open>__post_init__\<close> is not
  part of the sources: it is the parameter \<open>super_post_init\<close>, any function from the
  object to the object it leaves behind or an exception. \<open>Kernel_new\<close> is the value of
  \<^verbatim>\<open>Kernel()\<close>.
\<close>

definition FunctionVector_post_init ::
  "('k FunctionVector \<Rightarrow> error + 'k FunctionVector) \<Rightarrow> 'k \<Rightarrow> 'k FunctionVector
    \<Rightarrow> error + 'k FunctionVector" where
  "FunctionVector_post_init super_post_init Kernel_new self =
     ebind (super_post_init self) (\<lambda>self.
       if \<not> list_all isinstance_Function (map fst (vec self)) then Inl AssertionError
       else if kernel self = None then Inr (self\<lparr>kernel := Some Kernel_new\<rparr>)
       else Inr self)"

text \<open>The constructor \<^verbatim>\<open>FunctionVector(vec, kernel=kernel)\<close>.\<close>

definition FunctionVector_init ::
  "('k FunctionVector \<Rightarrow> error + 'k FunctionVector) \<Rightarrow> 'k \<Rightarrow> (pyval \<times> real) list
    \<Rightarrow> 'k option \<Rightarrow> error + 'k FunctionVector" where
  "FunctionVector_init super_post_init Kernel_new v kern =
     FunctionVector_post_init super_post_init Kernel_new \<lparr>vec = v, kernel = kern\<rparr>"

definition FunctionVector_wrap ::
  "('k FunctionVector \<Rightarrow> error + 'k FunctionVector) \<Rightarrow> 'k \<Rightarrow> 'k FunctionVector
    \<Rightarrow> pyval \<Rightarrow> error + 'k FunctionVector" where
  "FunctionVector_wrap super_post_init Kernel_new self func =
     (if \<not> isinstance_Function func then Inl AssertionError
      else FunctionVector_init super_post_init Kernel_new [(func, 1)] (kernel self))"

text \<open>
  \<^verbatim>\<open>_kwargs\<close> returns the dictionary \<^verbatim>\<open>dict(kernel=self.kernel)\<close>, given here by
  its one value.
\<close>

definition FunctionVector_kwargs ::
  "'k FunctionVector \<Rightarrow> 'k FunctionVector option \<Rightarrow> error + 'k option" where
  "FunctionVector_kwargs self other =
     (case other of
        None \<Rightarrow> Inr (kernel self)
      | Some oth \<Rightarrow>
          if kernel self = kernel oth then Inr (kernel self) else Inl AssertionError)"

text \<open>
  Modelled from the spec: the arithmetic of the base class DictVector (module
  \<^verbatim>\<open>vector.py\<close>, not part of the sources; the \<^verbatim>\<open>__add__\<close> and \<^verbatim>\<open>__sub__\<close> of
  FunctionVector itself are commented out). The spec says that a combination of two
  FunctionVectors is only valid when their Kernels are equal, enforced by assertion
  failure otherwise: the operation asks \<^verbatim>\<open>self._kwargs(other)\<close> for the constructor
  arguments and builds the result with them. How coefficients combine is the parameter
  \<open>combine\<close>.
\<close>

definition DictVector_binop ::
  "((pyval \<times> real) list \<Rightarrow> (pyval \<times> real) list \<Rightarrow> (pyval \<times> real) list)
    \<Rightarrow> ('k FunctionVector \<Rightarrow> error + 'k FunctionVector) \<Rightarrow> 'k
    \<Rightarrow> 'k FunctionVector \<Rightarrow> 'k FunctionVector \<Rightarrow> error + 'k FunctionVector" where
  "DictVector_binop combine super_post_init Kernel_new self other =
     ebind (FunctionVector_kwargs self (Some other)) (\<lambda>kw.
       FunctionVector_init super_post_init Kernel_new (combine (vec self) (vec other)) kw)"

text \<open>Calling a key of \<^verbatim>\<open>vec\<close>, and its method \<^verbatim>\<open>p\<close> in the call \<^verbatim>\<open>F.p(x)\<close>.\<close>

fun call_obj :: "pyval \<Rightarrow> real \<Rightarrow> error + real" where
  "call_obj (VObj g) x = Function_call g x"
| "call_obj _ x = Inl TypeError"

fun p_obj :: "pyval \<Rightarrow> real \<Rightarrow> error + real" where
  "p_obj (VObj g) x = Function_p_plain g x"
| "p_obj _ x = Inl AttributeError"

text \<open>\<^verbatim>\<open>sum(ys)\<close> adds from the left, starting at 0.\<close>

definition py_sum :: "real list \<Rightarrow> real" where
  "py_sum ys = foldl (+) 0 ys"

definition FunctionVector_f :: "'k FunctionVector \<Rightarrow> real \<Rightarrow> error + real" where
  "FunctionVector_f self x =
     ebind (collect (map (\<lambda>(f, v). ebind (call_obj f x) (\<lambda>y. Inr (y * v))) (vec self)))
       (\<lambda>ys. Inr (py_sum ys))"

definition FunctionVector_p :: "'k FunctionVector \<Rightarrow> real \<Rightarrow> error + real" where
  "FunctionVector_p self x =
     ebind (collect (map (\<lambda>(F, v). ebind (p_obj F x) (\<lambda>y. Inr (y * v))) (vec self)))
       (\<lambda>ys. Inr (py_sum ys))"

definition FunctionVector_df_dx :: "'k FunctionVector \<Rightarrow> real \<Rightarrow> error + real" where
  "FunctionVector_df_dx self x = neg (FunctionVector_p self x)"

subsection \<open>Goal seek and one-dimensional minimisation\<close>

definition GS_TOLERANCE :: real where "GS_TOLERANCE = 1 / 10 ^ 6"
definition GS_ITERATIONS :: nat where "GS_ITERATIONS = 1000"
definition GS_ETA :: real where "GS_ETA = 1 / 10 ^ 10"
definition GS_H :: real where "GS_H = 1 / 10 ^ 6"

text \<open>
  The \<^verbatim>\<open>for\<close> loop of \<^verbatim>\<open>goalseek\<close> with \<open>n\<close> iterations left; its value is the
  \<^verbatim>\<open>x\<close> the loop ends with, by \<^verbatim>\<open>break\<close> or by exhaustion.
\<close>

fun goalseek_loop :: "method1 \<Rightarrow> real \<Rightarrow> real \<Rightarrow> real \<Rightarrow> nat \<Rightarrow> real \<Rightarrow> error + real" where
  "goalseek_loop func target tolerance h 0 x = Inr x"
| "goalseek_loop func target tolerance h (Suc n) x =
     ebind (func x) (\<lambda>y.
     ebind (func (x + h)) (\<lambda>u.
     ebind (func (x - h)) (\<lambda>v.
     ebind (pdiv (u - v) (2 * h)) (\<lambda>m.
     ebind (pdiv (target - y) m) (\<lambda>d.
       let x' = x + d
       in ebind (func x') (\<lambda>r.
            if \<bar>r - target\<bar> < tolerance then Inr x'
            else goalseek_loop func target tolerance h n x'))))))"

definition FunctionVector_goalseek :: "'k FunctionVector \<Rightarrow> real \<Rightarrow> real \<Rightarrow> error + real" where
  "FunctionVector_goalseek self target x0 =
     (let iterations = GS_ITERATIONS;
          tolerance = GS_TOLERANCE;
          h = (if x0 \<noteq> 0 then x0 * GS_ETA else GS_H);
          func = FunctionVector_f self
      in ebind (goalseek_loop func target tolerance h iterations x0) (\<lambda>x.
         ebind (func x) (\<lambda>r.
           if \<bar>r - target\<bar> > tolerance then Inl ValueError else Inr x)))"

definition MM_LEARNING_RATE :: real where "MM_LEARNING_RATE = 2 / 10"
definition MM_ITERATIONS :: int where "MM_ITERATIONS = 1000"
definition MM_TOLERANCE :: real where "MM_TOLERANCE = 1 / 10 ^ 3"
definition MM_DERIV_H :: real where "MM_DERIV_H = 1 / 10 ^ 6"

text \<open>\<^verbatim>\<open>iterations or cls.MM_ITERATIONS\<close>\<close>

definition iterations_or :: "int option \<Rightarrow> int \<Rightarrow> int" where
  "iterations_or v d = (case v of None \<Rightarrow> d | Some i \<Rightarrow> if i = 0 then d else i)"

fun minimize1_loop :: "'k FunctionVector \<Rightarrow> real \<Rightarrow> real \<Rightarrow> nat \<Rightarrow> real \<Rightarrow> error + real" where
  "minimize1_loop self learning_rate tolerance 0 x = Inr x"
| "minimize1_loop self learning_rate tolerance (Suc n) x =
     ebind (FunctionVector_df_dx self x) (\<lambda>d.
       let x' = x - learning_rate * d
       in ebind (FunctionVector_p self x') (\<lambda>q.
            if \<bar>q\<bar> < tolerance then Inr x'
            else minimize1_loop self learning_rate tolerance n x'))"

definition FunctionVector_minimize1 ::
  "'k FunctionVector \<Rightarrow> real \<Rightarrow> real option \<Rightarrow> int option \<Rightarrow> real option \<Rightarrow> error + real" where
  "FunctionVector_minimize1 self x0 learning_rate iterations tolerance =
     (let learning_rate = (case learning_rate of None \<Rightarrow> MM_LEARNING_RATE | Some v \<Rightarrow> v);
          tolerance = (case tolerance of None \<Rightarrow> MM_TOLERANCE | Some v \<Rightarrow> v)
      in ebind (minimize1_loop self learning_rate tolerance
                  (nat (iterations_or iterations MM_ITERATIONS)) x0) (\<lambda>x.
         ebind (FunctionVector_p self x) (\<lambda>q.
           if \<bar>q\<bar> < tolerance then Inr x else Inl ValueError)))"

subsection \<open>Gradient descent in several dimensions\<close>

text \<open>
  A Python callable as \<^verbatim>\<open>minimize\<close> uses it: the number of parameters its signature
  declares, the call with positional arguments and the call with keyword arguments
  (each may raise, for instance on a wrong number of arguments or an unknown name).
\<close>

record pyfunc =
  nparams :: nat
  call_pos :: "real list \<Rightarrow> error + real"
  call_kw :: "(string \<times> real) list \<Rightarrow> error + real"

text \<open>The argument \<^verbatim>\<open>x0\<close>: \<^verbatim>\<open>None\<close>, a sequence of numbers, or a dictionary.\<close>

datatype x0_arg = X0_None | X0_list "real list" | X0_dict "(string \<times> real) list"

text \<open>A point of the descent, a sequence or a dictionary.\<close>

datatype point = Lst "real list" | Dct "(string \<times> real) list"

datatype minimize_result = Final point | Path "point list" point

definition e_i :: "nat \<Rightarrow> nat \<Rightarrow> real list" where
  "e_i i n = (replicate n 0)[i := 1]"

definition bump :: "(string \<times> real) list \<Rightarrow> string \<Rightarrow> real \<Rightarrow> (string \<times> real) list" where
  "bump dct k h = map (\<lambda>(kk, v). if kk = k then (kk, v + h) else (kk, v)) dct"

definition getitem :: "(string \<times> real) list \<Rightarrow> string \<Rightarrow> error + real" where
  "getitem dct k = (case map_of dct k of None \<Rightarrow> Inl KeyError | Some v \<Rightarrow> Inr v)"

text \<open>
  The body of the \<^verbatim>\<open>for\<close> loop of \<^verbatim>\<open>_minimize_lst\<close> up to the computation of
  \<^verbatim>\<open>norm2_dfdx\<close>: the new \<^verbatim>\<open>x\<close>, the gradient and its squared norm.
\<close>

definition minimize_lst_step ::
  "pyfunc \<Rightarrow> real \<Rightarrow> real \<Rightarrow> real list \<Rightarrow> error + (real list \<times> real list \<times> real)" where
  "minimize_lst_step func learning_rate deriv_h x =
     (let n = length x
      in ebind (call_pos func x) (\<lambda>f0.
         ebind (collect (map (\<lambda>i.
                  ebind (call_pos func (map2 (+) x (map ((*) deriv_h) (e_i i n)))) (\<lambda>fi.
                  pdiv (fi - f0) deriv_h))
                [0..<length x])) (\<lambda>dfdx.
           let x' = map2 (-) x (map ((*) learning_rate) dfdx);
               norm2_dfdx = sum_list (map2 (*) dfdx dfdx)
           in Inr (x', dfdx, norm2_dfdx))))"

text \<open>The same for \<^verbatim>\<open>_minimize_dct\<close>.\<close>

definition minimize_dct_step ::
  "pyfunc \<Rightarrow> real \<Rightarrow> real \<Rightarrow> (string \<times> real) list
    \<Rightarrow> error + ((string \<times> real) list \<times> (string \<times> real) list \<times> real)" where
  "minimize_dct_step func learning_rate deriv_h x =
     ebind (call_kw func x) (\<lambda>f0.
     ebind (collect (map (\<lambda>k.
              ebind (call_kw func (bump x k deriv_h)) (\<lambda>fk.
              ebind (pdiv (fk - f0) deriv_h) (\<lambda>d. Inr (k, d))))
            (map fst x))) (\<lambda>dfdx.
     ebind (collect (map (\<lambda>k.
              ebind (getitem x k) (\<lambda>xk.
              ebind (getitem dfdx k) (\<lambda>dk. Inr (k, xk - learning_rate * dk))))
            (map fst x))) (\<lambda>x'.
       let norm2_dfdx = py_sum (map (\<lambda>vv. vv ^ 2) (map snd dfdx))
       in Inr (x', dfdx, norm2_dfdx))))"

text \<open>
  The \<^verbatim>\<open>for\<close> loop of \<^verbatim>\<open>_minimize_lst\<close> and of \<^verbatim>\<open>_minimize_dct\<close>, which differ in
  the body \<open>step\<close> only, with \<open>n\<close> iterations left, followed by the
  \<^verbatim>\<open>return path, dfdx, norm2_dfdx\<close>. \<open>prev\<close> holds \<^verbatim>\<open>dfdx\<close> and \<^verbatim>\<open>norm2_dfdx\<close>
  once an iteration has assigned them; returning them unassigned raises
  \<^verbatim>\<open>UnboundLocalError\<close>.
\<close>

fun descent_loop ::
  "('s \<Rightarrow> error + ('s \<times> 'g \<times> real)) \<Rightarrow> real \<Rightarrow> nat \<Rightarrow> 's \<Rightarrow> 's list \<Rightarrow> ('g \<times> real) option
    \<Rightarrow> error + ('s list \<times> 'g \<times> real)" where
  "descent_loop step tol_squared 0 x path prev =
     (case prev of
        None \<Rightarrow> Inl UnboundLocalError
      | Some (dfdx, norm2_dfdx) \<Rightarrow> Inr (path, dfdx, norm2_dfdx))"
| "descent_loop step tol_squared (Suc n) x path prev =
     ebind (step x) (\<lambda>(x', dfdx, norm2_dfdx).
       let path' = path @ [x']
       in if norm2_dfdx < tol_squared then Inr (path', dfdx, norm2_dfdx)
          else descent_loop step tol_squared n x' path' (Some (dfdx, norm2_dfdx)))"

definition minimize_lst ::
  "pyfunc \<Rightarrow> real list \<Rightarrow> real \<Rightarrow> int \<Rightarrow> real \<Rightarrow> real
    \<Rightarrow> error + (real list list \<times> real list \<times> real)" where
  "minimize_lst func x0 learning_rate iterations tol_squared deriv_h =
     descent_loop (minimize_lst_step func learning_rate deriv_h) tol_squared
       (nat iterations) x0 [x0] None"

definition minimize_dct ::
  "pyfunc \<Rightarrow> (string \<times> real) list \<Rightarrow> real \<Rightarrow> int \<Rightarrow> real \<Rightarrow> real
    \<Rightarrow> error + ((string \<times> real) list list \<times> (string \<times> real) list \<times> real)" where
  "minimize_dct func x0 learning_rate iterations tol_squared deriv_h =
     descent_loop (minimize_dct_step func learning_rate deriv_h) tol_squared
       (nat iterations) x0 [x0] None"

text \<open>\<^verbatim>\<open>x0 = x0 or np.ones(n)\<close>: \<^verbatim>\<open>None\<close>, an empty list and an empty dictionary are falsy.\<close>

fun x0_or_ones :: "x0_arg \<Rightarrow> nat \<Rightarrow> point" where
  "x0_or_ones X0_None n = Lst (replicate n 1)"
| "x0_or_ones (X0_list xs) n = (if xs = [] then Lst (replicate n 1) else Lst xs)"
| "x0_or_ones (X0_dict d) n = (if d = [] then Lst (replicate n 1) else Dct d)"

text \<open>
  The check of \<^verbatim>\<open>x0\<close> before the loop: the length of a sequence is asserted, a
  dictionary is tried in a call of \<^verbatim>\<open>func\<close> whose exception is raised again.
\<close>

fun check_x0 :: "pyfunc \<Rightarrow> nat \<Rightarrow> point \<Rightarrow> error + unit" where
  "check_x0 func n (Lst xs) = (if length xs = n then Inr () else Inl AssertionError)"
| "check_x0 func n (Dct d) = ebind (call_kw func d) (\<lambda>y. Inr ())"

fun run_minimize ::
  "pyfunc \<Rightarrow> point \<Rightarrow> real \<Rightarrow> int \<Rightarrow> real \<Rightarrow> real \<Rightarrow> error + (point list \<times> point \<times> real)" where
  "run_minimize func (Dct d) learning_rate iterations tol_squared deriv_h =
     ebind (minimize_dct func d learning_rate iterations tol_squared deriv_h)
       (\<lambda>(path, dfdx, norm2_dfdx). Inr (map Dct path, Dct dfdx, norm2_dfdx))"
| "run_minimize func (Lst xs) learning_rate iterations tol_squared deriv_h =
     ebind (minimize_lst func xs learning_rate iterations tol_squared deriv_h)
       (\<lambda>(path, dfdx, norm2_dfdx). Inr (map Lst path, Lst dfdx, norm2_dfdx))"

definition FunctionVector_minimize ::
  "pyfunc \<Rightarrow> x0_arg \<Rightarrow> real option \<Rightarrow> int option \<Rightarrow> real option \<Rightarrow> real option \<Rightarrow> bool
    \<Rightarrow> error + minimize_result" where
  "FunctionVector_minimize func x0 learning_rate iterations tolerance deriv_h return_path =
     (let n = nparams func;
          x0 = x0_or_ones x0 n
      in ebind (check_x0 func n x0) (\<lambda>u.
         let learning_rate = py_or learning_rate MM_LEARNING_RATE;
             tolerance = py_or tolerance MM_TOLERANCE;
             deriv_h = py_or deriv_h MM_DERIV_H;
             iterations = iterations_or iterations MM_ITERATIONS;
             tol_squared = tolerance ^ 2
         in ebind (run_minimize func x0 learning_rate iterations tol_squared deriv_h)
              (\<lambda>(path, dfdx, norm2_dfdx).
                 if return_path then Inr (Path path dfdx)
                 else if norm2_dfdx < tol_squared then Inr (Final (last path))
                 else Inl ValueError)))"

subsection \<open>The derivative of a quadratic in rounded arithmetic\<close>

text \<open>
  The methods on the way from \<^verbatim>\<open>df_dx\<close> to \<^verbatim>\<open>QuadraticFunction.f\<close> once more, now
  with a rounding function \<open>fl\<close> applied to the result of every floating-point operation
  and to every float literal, in the order in which Python evaluates them. Negation is
  exact. With the identity for \<open>fl\<close> these are the definitions above.
\<close>

definition fl_quadratic_f :: "(real \<Rightarrow> real) \<Rightarrow> real \<Rightarrow> real \<Rightarrow> real \<Rightarrow> real \<Rightarrow> real" where
  "fl_quadratic_f fl a b c x = fl (fl (fl (a * fl (x ^ 2)) + fl (b * x)) + c)"

definition fl_df_dx_abs ::
  "(real \<Rightarrow> real) \<Rightarrow> (real \<Rightarrow> real) \<Rightarrow> real \<Rightarrow> real option \<Rightarrow> real option \<Rightarrow> error + real" where
  "fl_df_dx_abs fl self_f x h precision =
     (let h1 = (case h of None \<Rightarrow> fl DERIV_H | Some v \<Rightarrow> v);
          h2 = (case precision of
                  None \<Rightarrow> h1
                | Some pr \<Rightarrow> if pr \<noteq> 0 then fl (h1 * pr) else h1)
      in ebind (pdiv (fl (self_f (fl (x + h2)) - self_f (fl (x - h2)))) (fl (2 * h2)))
           (\<lambda>q. Inr (fl q)))"

definition fl_df_dx_rel ::
  "(real \<Rightarrow> real) \<Rightarrow> (real \<Rightarrow> real) \<Rightarrow> real \<Rightarrow> real option \<Rightarrow> real option \<Rightarrow> error + real" where
  "fl_df_dx_rel fl self_f x eta precision =
     (let eta1 = (case eta of None \<Rightarrow> fl DERIV_ETA | Some v \<Rightarrow> v)
      in fl_df_dx_abs fl self_f x (if x \<noteq> 0 then Some (fl (x * eta1)) else None) precision)"

definition fl_p :: "(real \<Rightarrow> real) \<Rightarrow> (real \<Rightarrow> real) \<Rightarrow> real \<Rightarrow> real option \<Rightarrow> error + real" where
  "fl_p fl self_f x precision = neg (fl_df_dx_rel fl self_f x None precision)"

definition fl_df_dx :: "(real \<Rightarrow> real) \<Rightarrow> (real \<Rightarrow> real) \<Rightarrow> real \<Rightarrow> real option \<Rightarrow> error + real" where
  "fl_df_dx fl self_f x precision = neg (fl_p fl self_f x precision)"

text \<open>
  \<open>fl\<close> rounds with relative error at most \<open>u\<close> on the magnitudes from \<open>10\<^sup>-\<^sup>5\<close> to 10
  and leaves 0 alone. Rounding to the nearest IEEE double does, with \<open>u = 2\<^sup>-\<^sup>5\<^sup>3\<close>.
\<close>

definition rounds_within :: "(real \<Rightarrow> real) \<Rightarrow> real \<Rightarrow> bool" where
  "rounds_within fl u =
     (fl 0 = 0 \<and> (\<forall>z. 1 / 10 ^ 5 \<le> \<bar>z\<bar> \<and> \<bar>z\<bar> \<le> 10 \<longrightarrow> \<bar>fl z - z\<bar> \<le> u * \<bar>z\<bar>))"


subsection \<open>The invariant of a FunctionVector\<close>

definition FunctionVector_invariant :: "'k FunctionVector \<Rightarrow> bool" where
  "FunctionVector_invariant self =
     (kernel self \<noteq> None \<and> list_all isinstance_Function (map fst (vec self)))"

subsection \<open>The course of a descent\<close>


subsection \<open>Inputs of the examples\<close>

text \<open>
  The subclass of the example in the class docstring, \<^verbatim>\<open>f(x) = k/x\<close> with the
  overrides \<^verbatim>\<open>def p(self, x): return -self.k/(x*x)\<close> and
  \<^verbatim>\<open>def pp(self, x): return 2*self.k/(x*x*x)\<close>, at its default \<^verbatim>\<open>k = 1\<close>.
\<close>

definition docstring_hyperbola :: Function where
  "docstring_hyperbola =
     SubclassFunction (\<lambda>x. pdiv 1 x) False
       (Some (Takes_x (\<lambda>x. pdiv (- 1) (x * x))))
       (Some (Takes_x (\<lambda>x. pdiv (2 * 1) (x * x * x))))"

text \<open>
  The vector of the one function \<^verbatim>\<open>f(x) = 1e-6 if x >= 0 else -1e-6\<close>, a subclass
  without overrides. On it the steps of \<^verbatim>\<open>goalseek\<close> for the target 0 from
  \<open>x0 = 0\<close> alternate between \<open>-10\<^sup>-\<^sup>6\<close> and 0, and every operation of the loop is
  exact in double precision as well: the values are 0 and the tolerance and its double
  with either sign, and the quotients are those of equals and by 1.
\<close>

definition step_vector :: "nat FunctionVector" where
  "step_vector =
     \<lparr>vec = [(VObj (SubclassFunction
                (\<lambda>x. Inr (if 0 \<le> x then 1 / 10 ^ 6 else - (1 / 10 ^ 6))) False None None), 1)],
      kernel = Some 0\<rparr>"


definition constant_zero :: pyfunc where
  "constant_zero = \<lparr>nparams = 1,
     call_pos = (\<lambda>xs. if length xs = 1 then Inr 0 else Inl TypeError),
     call_kw = (\<lambda>d. if map fst d = [''x''] then Inr 0 else Inl TypeError)\<rparr>"

section \<open>Properties\<close>

subsection \<open>Basic facts\<close>

lemma ebind_Inr [simp]: "ebind (Inr y) g = g y"
  by (simp add: ebind_def)

lemma ebind_Inl [simp]: "ebind (Inl e) g = Inl e"
  by (simp add: ebind_def)

lemma step_abs_zero_precision: "step_abs h (Some 0) = step_abs h None"
  by (simp add: step_abs_def)

lemma step_abs_None: "step_abs h None = (case h of None \<Rightarrow> DERIV_H | Some v \<Rightarrow> v)"
  by (simp add: step_abs_def)

subsection \<open>Derivatives\<close>

text \<open>
  Claim C9. For every Function \<open>F\<close> and every \<open>x\<close>, \<^verbatim>\<open>df_dx_abs\<close> and
  \<^verbatim>\<open>d2f_dx2_abs\<close> called with \<^verbatim>\<open>precision=0\<close> return what they return with
  \<^verbatim>\<open>precision\<close> omitted, whatever \<^verbatim>\<open>h\<close> is: the step stays the given \<^verbatim>\<open>h\<close>
  (or \<^verbatim>\<open>DERIV_H\<close>). So unless the caller passes \<^verbatim>\<open>h=0\<close> itself, the step is not
  zero, and when the evaluations of \<^verbatim>\<open>f\<close> succeed both quotients are computed: the
  divisions by \<^verbatim>\<open>2*h\<close> and \<^verbatim>\<open>h*h\<close> do not raise.
\<close>

theorem precision_zero_is_absent:
  "df_dx_abs (Function_f F) x h (Some 0) = df_dx_abs (Function_f F) x h None
   \<and> d2f_dx2_abs (Function_f F) x h (Some 0) = d2f_dx2_abs (Function_f F) x h None
   \<and> step_abs h (Some 0) = (case h of None \<Rightarrow> DERIV_H | Some v \<Rightarrow> v)
   \<and> (h \<noteq> Some 0 \<longrightarrow>
        step_abs h (Some 0) \<noteq> 0
        \<and> (\<forall>u v w. Function_f F (x + step_abs h (Some 0)) = Inr u
              \<longrightarrow> Function_f F (x - step_abs h (Some 0)) = Inr v
              \<longrightarrow> Function_f F x = Inr w
              \<longrightarrow> df_dx_abs (Function_f F) x h (Some 0)
                    = Inr ((u - v) / (2 * step_abs h (Some 0)))
                  \<and> d2f_dx2_abs (Function_f F) x h (Some 0)
                    = Inr ((u + v - 2 * w) / (step_abs h (Some 0) * step_abs h (Some 0)))))"
proof -
  have nz: "step_abs h (Some 0) \<noteq> 0" if "h \<noteq> Some 0"
    using that by (cases h) (simp_all add: step_abs_zero_precision step_abs_None DERIV_H_def)
  show ?thesis
    using nz
    by (simp add: df_dx_abs_def d2f_dx2_abs_def step_abs_zero_precision step_abs_None pdiv_def
        Let_def)
qed

theorem precision_zero_is_absent_witness:
  "(None :: real option) \<noteq> Some 0
   \<and> Function_f (QuadraticFunction 1 0 0) (1 + step_abs None (Some 0)) = Inr ((1 + 1 / 10 ^ 6)\<^sup>2)
   \<and> Function_f (QuadraticFunction 1 0 0) (1 - step_abs None (Some 0)) = Inr ((1 - 1 / 10 ^ 6)\<^sup>2)
   \<and> Function_f (QuadraticFunction 1 0 0) 1 = Inr 1
   \<and> step_abs None (Some 0) \<noteq> 0
   \<and> df_dx_abs (Function_f (QuadraticFunction 1 0 0)) 1 None (Some 0) = Inr 2
   \<and> d2f_dx2_abs (Function_f (QuadraticFunction 1 0 0)) 1 None (Some 0) = Inr 2"
proof -
  let ?F = "QuadraticFunction 1 0 0"
  have s: "step_abs None (Some 0) = 1 / 10 ^ 6"
    by (simp add: step_abs_zero_precision step_abs_None DERIV_H_def)
  have a: "Function_f ?F (1 + step_abs None (Some 0)) = Inr ((1 + 1 / 10 ^ 6)\<^sup>2)"
    and b: "Function_f ?F (1 - step_abs None (Some 0)) = Inr ((1 - 1 / 10 ^ 6)\<^sup>2)"
    and c: "Function_f ?F 1 = Inr 1"
    by (simp_all add: s)
  have h: "(None :: real option) \<noteq> Some 0" by simp
  from precision_zero_is_absent [of ?F 1 None] h a b c
  have "step_abs None (Some 0) \<noteq> 0"
    and "df_dx_abs (Function_f ?F) 1 None (Some 0)
          = Inr (((1 + 1 / 10 ^ 6)\<^sup>2 - (1 - 1 / 10 ^ 6)\<^sup>2) / (2 * step_abs None (Some 0)))"
    and "d2f_dx2_abs (Function_f ?F) 1 None (Some 0)
          = Inr (((1 + 1 / 10 ^ 6)\<^sup>2 + (1 - 1 / 10 ^ 6)\<^sup>2 - 2 * 1)
                   / (step_abs None (Some 0) * step_abs None (Some 0)))"
    by blast+
  then show ?thesis
    using a b c by (simp add: s power2_eq_square)
qed

lemma df_dx_without_override:
  "p_override F = None \<Longrightarrow>
   Function_p_plain F x = Function_p F x None
   \<and> Function_df_dx F x precision = neg (Function_p F x precision)"
  by (simp add: Function_p_plain_def Function_p_def Function_df_dx_def p_method_def
      p_method_plain_def)

lemma df_dx_with_precision_override:
  "Function_df_dx (SubclassFunction uf uabs (Some (Takes_x_precision q)) upp) x precision
     = neg (q x precision)
   \<and> Function_p (SubclassFunction uf uabs (Some (Takes_x_precision q)) upp) x precision
     = q x precision
   \<and> Function_p_plain (SubclassFunction uf uabs (Some (Takes_x_precision q)) upp) x = q x None"
  by (simp add: Function_df_dx_def Function_p_def Function_p_plain_def p_method_def
      p_method_plain_def)

lemma vector_df_dx_is_negated_p: "FunctionVector_df_dx v x = neg (FunctionVector_p v x)"
  by (simp add: FunctionVector_df_dx_def)

text \<open>
  Claim C7. The claim says that \<^verbatim>\<open>df_dx(x)\<close> is the negation of \<^verbatim>\<open>p(x)\<close> for every
  Function, the variants that override \<^verbatim>\<open>p\<close> included. \<^verbatim>\<open>df_dx\<close> calls
  \<^verbatim>\<open>self.p(x, precision=precision)\<close>, so on an override declared as the class
  docstring shows, \<^verbatim>\<open>def p(self, x)\<close>, it raises \<^verbatim>\<open>TypeError\<close> for every \<open>x\<close> and
  every \<^verbatim>\<open>precision\<close>, while \<^verbatim>\<open>p(x)\<close> returns what the override computes. On
  \<open>docstring_hyperbola\<close>, \<^verbatim>\<open>p(2)\<close> is \<open>-1/4\<close> and \<^verbatim>\<open>df_dx(2)\<close> raises; the
  PriceFunction of it raises as well. The lemmas before the theorem show the claim
  without an override, with an override that declares the keyword, and for a
  FunctionVector.
\<close>

theorem df_dx_raises_on_docstring_override:
  "Function_p_plain (SubclassFunction uf uabs (Some (Takes_x q)) upp) x = q x
   \<and> Function_df_dx (SubclassFunction uf uabs (Some (Takes_x q)) upp) x precision
       = Inl TypeError
   \<and> Function_p_plain docstring_hyperbola 2 = Inr (- 1 / 4)
   \<and> Function_df_dx docstring_hyperbola 2 None = Inl TypeError
   \<and> Function_df_dx docstring_hyperbola 2 None \<noteq> neg (Function_p_plain docstring_hyperbola 2)
   \<and> Function_f (PriceFunction docstring_hyperbola None) 2 = Inl TypeError"
  by (simp add: Function_df_dx_def Function_p_def Function_p_plain_def p_method_def
      p_method_plain_def docstring_hyperbola_def neg_def pdiv_def)

lemma quadratic_p_at_1: "Function_p (QuadraticFunction 1 0 0) 1 None = Inr (- 2)"
  by (simp add: Function_p_def p_method_def df_dx_rel_def df_dx_abs_def step_abs_None
      DERIV_ETA_def neg_def pdiv_def power2_eq_square Let_def)

lemma fl_abs:
  assumes "rounds_within fl u" "u \<le> 1 / 10 ^ 12" "1 / 100000 \<le> z" "z \<le> 10"
  shows "\<bar>fl z - z\<bar> \<le> 1 / 100000000000"
proof -
  have z: "0 < z" "1 / 10 ^ 5 \<le> \<bar>z\<bar>" "\<bar>z\<bar> \<le> 10" using assms(3,4) by simp_all
  from assms(1) z(2,3) have "\<bar>fl z - z\<bar> \<le> u * \<bar>z\<bar>"
    unfolding rounds_within_def by blast
  with z(1) have "\<bar>fl z - z\<bar> \<le> u * z" by simp
  moreover have "u * z \<le> (1 / 10 ^ 12) * 10"
    using assms(2,4) z(1) by (intro mult_mono) simp_all
  ultimately show ?thesis by simp
qed

lemma square_close:
  fixes y c d :: real
  assumes "\<bar>y - c\<bar> \<le> d" "d \<le> 1" "\<bar>c\<bar> \<le> 2"
  shows "\<bar>y\<^sup>2 - c\<^sup>2\<bar> \<le> 5 * d"
proof -
  have "\<bar>y + c\<bar> \<le> 5" using assms by linarith
  moreover have "y\<^sup>2 - c\<^sup>2 = (y - c) * (y + c)" by (simp add: power2_eq_square algebra_simps)
  moreover have "0 \<le> d" using assms(1) by linarith
  ultimately have "\<bar>y\<^sup>2 - c\<^sup>2\<bar> \<le> d * 5"
    using assms(1) by (simp add: abs_mult mult_mono)
  then show ?thesis by simp
qed

lemma fl_quadratic_close:
  assumes fl: "rounds_within fl u" "u \<le> 1 / 10 ^ 12"
    and y: "\<bar>y - c\<bar> \<le> 1 / 100000000000" "9 / 10 \<le> c" "c \<le> 11 / 10"
  shows "\<bar>fl_quadratic_f fl 1 0 0 y - c\<^sup>2\<bar> \<le> 9 / 100000000000"
proof -
  have "\<bar>y\<^sup>2 - c\<^sup>2\<bar> \<le> 5 * (1 / 100000000000)"
    by (rule square_close) (use y in linarith)+
  then have s0: "\<bar>y\<^sup>2 - c\<^sup>2\<bar> \<le> 5 / 100000000000" by simp
  have "(9 / 10)\<^sup>2 \<le> c\<^sup>2" by (rule power_mono) (use y in linarith)+
  moreover have "c\<^sup>2 \<le> (11 / 10)\<^sup>2" by (rule power_mono) (use y in linarith)+
  ultimately have c2: "81 / 100 \<le> c\<^sup>2" "c\<^sup>2 \<le> 121 / 100"
    by (simp_all add: power2_eq_square)
  define s1 where "s1 = fl (y\<^sup>2)"
  define s2 where "s2 = fl (1 * s1)"
  define s3 where "s3 = fl (s2 + fl (0 * y))"
  define s4 where "s4 = fl (s3 + 0)"
  have z: "fl (0 * y) = 0" using fl(1) by (simp add: rounds_within_def)
  have e1: "\<bar>s1 - y\<^sup>2\<bar> \<le> 1 / 100000000000"
    unfolding s1_def by (rule fl_abs [OF fl]) (use s0 c2 in linarith)+
  have e2: "\<bar>s2 - s1\<bar> \<le> 1 / 100000000000"
    unfolding s2_def mult_1 by (rule fl_abs [OF fl]) (use s0 c2 e1 in linarith)+
  have e3: "\<bar>s3 - s2\<bar> \<le> 1 / 100000000000"
    unfolding s3_def z add_0_right by (rule fl_abs [OF fl]) (use s0 c2 e1 e2 in linarith)+
  have e4: "\<bar>s4 - s3\<bar> \<le> 1 / 100000000000"
    unfolding s4_def add_0_right by (rule fl_abs [OF fl]) (use s0 c2 e1 e2 e3 in linarith)+
  have "fl_quadratic_f fl 1 0 0 y = s4"
    by (simp add: fl_quadratic_f_def s4_def s3_def s2_def s1_def)
  with s0 e1 e2 e3 e4 show ?thesis by linarith
qed

lemma rounded_quadratic_derivative_at_1:
  assumes fl: "rounds_within fl u" "u \<le> 1 / 10 ^ 12"
  shows "\<exists>d. fl_df_dx fl (fl_quadratic_f fl 1 0 0) 1 None = Inr d \<and> \<bar>d - 2\<bar> \<le> 1 / 10 ^ 4
             \<and> fl_p fl (fl_quadratic_f fl 1 0 0) 1 None = Inr (- d)"
proof -
  define e where "e = fl (1 / 10000)"
  define h where "h = fl e"
  define yp where "yp = fl (1 + h)"
  define ym where "ym = fl (1 - h)"
  define A where "A = fl_quadratic_f fl 1 0 0 yp"
  define B where "B = fl_quadratic_f fl 1 0 0 ym"
  define num where "num = fl (A - B)"
  define den where "den = fl (2 * h)"
  have e: "\<bar>e - 1 / 10000\<bar> \<le> 1 / 100000000000"
    unfolding e_def by (rule fl_abs [OF fl]) simp_all
  have h: "\<bar>h - e\<bar> \<le> 1 / 100000000000"
    unfolding h_def by (rule fl_abs [OF fl]) (use e in linarith)+
  have hr: "9 / 100000 \<le> h" "h \<le> 11 / 100000" using e h by linarith+
  have yp: "\<bar>yp - (1 + h)\<bar> \<le> 1 / 100000000000"
    unfolding yp_def by (rule fl_abs [OF fl]) (use hr in linarith)+
  have ym: "\<bar>ym - (1 - h)\<bar> \<le> 1 / 100000000000"
    unfolding ym_def by (rule fl_abs [OF fl]) (use hr in linarith)+
  have A: "\<bar>A - (1 + h)\<^sup>2\<bar> \<le> 9 / 100000000000"
    unfolding A_def by (rule fl_quadratic_close [OF fl yp]) (use hr in linarith)+
  have B: "\<bar>B - (1 - h)\<^sup>2\<bar> \<le> 9 / 100000000000"
    unfolding B_def by (rule fl_quadratic_close [OF fl ym]) (use hr in linarith)+
  have d4: "(1 + h)\<^sup>2 - (1 - h)\<^sup>2 = 4 * h" by (simp add: power2_eq_square algebra_simps)
  have AB: "\<bar>(A - B) - 4 * h\<bar> \<le> 18 / 100000000000" using A B d4 by linarith
  have num: "\<bar>num - (A - B)\<bar> \<le> 1 / 100000000000"
    unfolding num_def by (rule fl_abs [OF fl]) (use AB hr in linarith)+
  have den: "\<bar>den - 2 * h\<bar> \<le> 1 / 100000000000"
    unfolding den_def by (rule fl_abs [OF fl]) (use hr in linarith)+
  have dpos: "1 / 10000 \<le> den" using den hr by linarith
  then have dnz: "den \<noteq> 0" by auto
  have nd: "\<bar>num - 2 * den\<bar> \<le> 21 / 100000000000" using AB num den by linarith
  have "num / den - 2 = (num - 2 * den) / den" using dnz by (simp add: field_simps)
  then have "\<bar>num / den - 2\<bar> = \<bar>num - 2 * den\<bar> / den" using dpos by simp
  also have "\<dots> \<le> (21 / 100000000000) / (1 / 10000)"
    using nd dpos by (intro frac_le) simp_all
  finally have q: "\<bar>num / den - 2\<bar> \<le> 21 / 10000000" by simp
  have r: "\<bar>fl (num / den) - num / den\<bar> \<le> 1 / 100000000000"
    by (rule fl_abs [OF fl]) (use q in linarith)+
  have v: "fl_df_dx_abs fl (fl_quadratic_f fl 1 0 0) 1 (Some h) None = Inr (fl (num / den))"
    using dnz
    by (simp add: fl_df_dx_abs_def Let_def pdiv_def num_def den_def A_def B_def
        yp_def ym_def)
  have "fl_p fl (fl_quadratic_f fl 1 0 0) 1 None = Inr (- fl (num / den))"
    by (simp add: fl_p_def fl_df_dx_rel_def Let_def neg_def v DERIV_ETA_def h_def [symmetric]
        e_def [symmetric])
  moreover from this have "fl_df_dx fl (fl_quadratic_f fl 1 0 0) 1 None = Inr (fl (num / den))"
    by (simp add: fl_df_dx_def neg_def)
  moreover have "\<bar>fl (num / den) - 2\<bar> \<le> 1 / 10000" using q r by linarith
  ultimately show ?thesis by simp
qed

lemma rounded_model_exact:
  "fl_p (\<lambda>z. z) (fl_quadratic_f (\<lambda>z. z) a b c) x precision
     = Function_p (QuadraticFunction a b c) x precision
   \<and> fl_df_dx (\<lambda>z. z) (fl_quadratic_f (\<lambda>z. z) a b c) x precision
     = Function_df_dx (QuadraticFunction a b c) x precision"
proof -
  have "fl_df_dx_abs (\<lambda>z. z) (fl_quadratic_f (\<lambda>z. z) a b c) x h precision
          = df_dx_abs (Function_f (QuadraticFunction a b c)) x h precision" for h
    by (cases "pdiv
          (fl_quadratic_f (\<lambda>z. z) a b c (x + step_abs h precision)
            - fl_quadratic_f (\<lambda>z. z) a b c (x - step_abs h precision))
          (2 * step_abs h precision)")
      (simp_all add: fl_df_dx_abs_def df_dx_abs_def step_abs_def fl_quadratic_f_def Let_def)
  then show ?thesis
    by (simp add: fl_p_def fl_df_dx_def fl_df_dx_rel_def Function_df_dx_def Function_p_def
        p_method_def df_dx_rel_def)
qed

lemma rounds_up_within: "rounds_within (\<lambda>z. z * (1 + 1 / 10 ^ 13)) (1 / 10 ^ 13)"
  by (simp add: rounds_within_def algebra_simps abs_mult)

text \<open>
  Claim C8. For the quadratic with \<open>a = 1\<close>, \<open>b = 0\<close>, \<open>c = 0\<close>, \<^verbatim>\<open>df_dx(1)\<close> is
  within \<open>10\<^sup>-\<^sup>4\<close> of 2 and \<^verbatim>\<open>p(1)\<close> is within \<open>10\<^sup>-\<^sup>4\<close> of -2, where \<^verbatim>\<open>p\<close> takes
  the relative step \<open>h = 1 * DERIV_ETA\<close>, since \<^verbatim>\<open>DERIV_IS_ABS\<close> is false and
  \<^verbatim>\<open>DERIV_ETA\<close> is \<open>10\<^sup>-\<^sup>4\<close>. In exact arithmetic the central difference of a quadratic
  is its derivative, so both values are met exactly; and in every arithmetic that rounds
  each operation with a relative error of at most \<open>10\<^sup>-\<^sup>1\<^sup>2\<close>, as double precision does,
  \<^verbatim>\<open>df_dx(1)\<close> stays within \<open>10\<^sup>-\<^sup>4\<close> of 2 and \<^verbatim>\<open>p(1)\<close> is its negation.
\<close>

theorem quadratic_derivative_at_1:
  "(\<exists>d. Function_df_dx (QuadraticFunction 1 0 0) 1 None = Inr d \<and> \<bar>d - 2\<bar> \<le> 1 / 10 ^ 4)
   \<and> (\<exists>q. Function_p (QuadraticFunction 1 0 0) 1 None = Inr q \<and> \<bar>q - (- 2)\<bar> \<le> 1 / 10 ^ 4)
   \<and> Function_p (QuadraticFunction 1 0 0) 1 None
       = neg (df_dx_abs (Function_f (QuadraticFunction 1 0 0)) 1 (Some (1 * DERIV_ETA)) None)
   \<and> \<not> DERIV_IS_ABS (QuadraticFunction 1 0 0) \<and> DERIV_ETA = 1 / 10 ^ 4
   \<and> Function_p_plain (QuadraticFunction 1 0 0) 1 = Function_p (QuadraticFunction 1 0 0) 1 None
   \<and> (rounds_within fl u \<and> u \<le> 1 / 10 ^ 12 \<longrightarrow>
        (\<exists>d. fl_df_dx fl (fl_quadratic_f fl 1 0 0) 1 None = Inr d \<and> \<bar>d - 2\<bar> \<le> 1 / 10 ^ 4
             \<and> fl_p fl (fl_quadratic_f fl 1 0 0) 1 None = Inr (- d)))"
proof -
  have "(\<exists>d. Function_df_dx (QuadraticFunction 1 0 0) 1 None = Inr d \<and> \<bar>d - 2\<bar> \<le> 1 / 10 ^ 4)
   \<and> (\<exists>q. Function_p (QuadraticFunction 1 0 0) 1 None = Inr q \<and> \<bar>q - (- 2)\<bar> \<le> 1 / 10 ^ 4)
   \<and> Function_p (QuadraticFunction 1 0 0) 1 None
       = neg (df_dx_abs (Function_f (QuadraticFunction 1 0 0)) 1 (Some (1 * DERIV_ETA)) None)
   \<and> \<not> DERIV_IS_ABS (QuadraticFunction 1 0 0) \<and> DERIV_ETA = 1 / 10 ^ 4"
    by (simp add: Function_df_dx_def quadratic_p_at_1 neg_def)
      (simp add: df_dx_abs_def step_abs_None DERIV_ETA_def pdiv_def power2_eq_square Let_def)
  moreover have "Function_p_plain (QuadraticFunction 1 0 0) 1
                   = Function_p (QuadraticFunction 1 0 0) 1 None"
    by (simp add: df_dx_without_override)
  ultimately show ?thesis using rounded_quadratic_derivative_at_1 [of fl u] by blast
qed

theorem quadratic_derivative_at_1_witness:
  "rounds_within (\<lambda>z. z * (1 + 1 / 10 ^ 13)) (1 / 10 ^ 13)
   \<and> (1 / 10 ^ 13 :: real) \<le> 1 / 10 ^ 12
   \<and> (\<exists>d. fl_df_dx (\<lambda>z. z * (1 + 1 / 10 ^ 13))
             (fl_quadratic_f (\<lambda>z. z * (1 + 1 / 10 ^ 13)) 1 0 0) 1 None = Inr d
          \<and> \<bar>d - 2\<bar> \<le> 1 / 10 ^ 4
          \<and> fl_p (\<lambda>z. z * (1 + 1 / 10 ^ 13))
              (fl_quadratic_f (\<lambda>z. z * (1 + 1 / 10 ^ 13)) 1 0 0) 1 None = Inr (- d))"
proof -
  have u: "(1 / 10 ^ 13 :: real) \<le> 1 / 10 ^ 12" by simp
  from quadratic_derivative_at_1 [of "\<lambda>z. z * (1 + 1 / 10 ^ 13)" "1 / 10 ^ 13"]
    rounds_up_within u
  show ?thesis by blast
qed

subsection \<open>Evaluation of a FunctionVector\<close>

lemma py_sum_sum_list: "py_sum ys = sum_list ys"
proof -
  have "foldl (+) a ys = a + sum_list ys" for a :: real
    by (induction ys arbitrary: a) simp_all
  then show ?thesis by (simp add: py_sum_def)
qed

lemma collect_scaled:
  fixes g :: "'a \<Rightarrow> error + real"
  shows "collect (map (\<lambda>(f, c). ebind (g f) (\<lambda>y. Inr (y * c))) kvs)
   = ebind (collect (map (\<lambda>(f, c). g f) kvs)) (\<lambda>ys. Inr (map2 (\<lambda>c y. y * c) (map snd kvs) ys))"
proof (induction kvs)
  case Nil
  show ?case by simp
next
  case (Cons kv kvs)
  obtain f c where kv: "kv = (f, c)" by (cases kv)
  show ?case
  proof (cases "g f")
    case (Inl e)
    then show ?thesis by (simp add: kv)
  next
    case (Inr y)
    then show ?thesis
      by (cases "collect (map (\<lambda>(f, c). g f) kvs)") (simp_all add: kv Cons.IH)
  qed
qed

text \<open>
  Claim C6. For every Function \<open>F\<close>, coefficient \<open>c\<close> and input \<open>x\<close>, the
  FunctionVector with the mapping \<^verbatim>\<open>{F: c}\<close> evaluates at \<open>x\<close> to \<open>c\<close> times
  \<^verbatim>\<open>F(x)\<close> (and raises what \<^verbatim>\<open>F(x)\<close> raises). In general \<^verbatim>\<open>f(x)\<close> calls every
  key at \<open>x\<close> in the order of the dictionary, raises the first exception met, and
  otherwise returns the sum over all entries of coefficient times value.
\<close>

theorem FunctionVector_f_linear_combination:
  "FunctionVector_f \<lparr>vec = [(VObj F, c)], kernel = K\<rparr> x
     = ebind (Function_call F x) (\<lambda>y. Inr (c * y))
   \<and> FunctionVector_f v x
     = ebind (collect (map (\<lambda>(f, c). call_obj f x) (vec v)))
         (\<lambda>ys. Inr (sum_list (map2 (*) (map snd (vec v)) ys)))"
proof -
  have "FunctionVector_f \<lparr>vec = [(VObj F, c)], kernel = K\<rparr> x
     = ebind (Function_call F x) (\<lambda>y. Inr (c * y))"
    by (cases "Function_call F x") (simp_all add: FunctionVector_f_def py_sum_def)
  moreover have "(\<lambda>c y. y * c) = ((*) :: real \<Rightarrow> real \<Rightarrow> real)"
    by (intro ext) simp
  then have "FunctionVector_f v x
     = ebind (collect (map (\<lambda>(f, c). call_obj f x) (vec v)))
         (\<lambda>ys. Inr (sum_list (map2 (*) (map snd (vec v)) ys)))"
    unfolding FunctionVector_f_def collect_scaled [where g = "\<lambda>f. call_obj f x"]
    by (cases "collect (map (\<lambda>(f, c). call_obj f x) (vec v))") (simp_all add: py_sum_sum_list)
  ultimately show ?thesis by simp
qed

subsection \<open>Construction and \<^verbatim>\<open>update\<close>\<close>

text \<open>
  Claim C1. The claim says that \<^verbatim>\<open>PriceFunction(func=w, precision=pr)\<close> with a
  precision that is not \<^verbatim>\<open>None\<close> succeeds and stores \<^verbatim>\<open>float(pr)\<close>. In the code
  the coercion is the assignment \<^verbatim>\<open>self.precision = float(self.precision)\<close> inside
  \<^verbatim>\<open>__post_init__\<close> of a frozen dataclass: for every Function \<open>w\<close> and every number
  \<open>pr\<close> the construction of a PriceFunction and of a Price2Function raises
  \<^verbatim>\<open>FrozenInstanceError\<close>, and so do \<^verbatim>\<open>w.p_func(precision=pr)\<close> and
  \<^verbatim>\<open>w.pp_func(precision=pr)\<close>.
\<close>

theorem price_function_precision_frozen:
  "dataclass_init PriceFunction_class [(''func'', VObj w), (''precision'', VNum pr)]
     = Inl FrozenInstanceError
   \<and> dataclass_init Price2Function_class [(''func'', VObj w), (''precision'', VNum pr)]
     = Inl FrozenInstanceError
   \<and> Function_p_func w (VNum pr) = Inl FrozenInstanceError
   \<and> Function_pp_func w (VNum pr) = Inl FrozenInstanceError"
  by (simp add: Function_p_func_def Function_pp_func_def dataclass_init_def dataclass_bind_def
      PriceFunction_post_init_def Price2Function_post_init_def getattr_def dataclass_setattr_def)

lemma price_function_without_precision:
  "dataclass_init PriceFunction_class [(''func'', VObj w)] = Inr (instance_of (PriceFunction w None))"
  by (simp add: dataclass_init_def dataclass_bind_def instance_of_def opt_val_def
      PriceFunction_post_init_def getattr_def)

text \<open>
  Claim C5. The claim says that \<^verbatim>\<open>F.update()\<close> returns an object equal to \<open>F\<close>
  for every Function \<open>F\<close>. For a PriceFunction or Price2Function, \<^verbatim>\<open>params()\<close> is
  \<^verbatim>\<open>asdict(self)\<close>, which has turned the wrapped Function into a dictionary, and the
  constructor called with it fails the assertion \<^verbatim>\<open>isinstance(self.func, Function)\<close>:
  \<^verbatim>\<open>update()\<close> raises \<^verbatim>\<open>AssertionError\<close>. The lemmas after the theorem show the
  claim on every instance that \<^verbatim>\<open>asdict\<close> leaves as it is, which are those of the
  other variants.
\<close>

theorem update_of_price_function_fails:
  "Function_update (PriceFunction g pr) [] = Inl AssertionError
   \<and> Function_update (Price2Function g pr) [] = Inl AssertionError
   \<and> Function_update (PriceFunction (QuadraticFunction 0 0 0) None) []
       \<noteq> Inr (instance_of (PriceFunction (QuadraticFunction 0 0 0) None))"
  by (simp add: Function_update_def Function_params_def dict_merge_def dataclass_init_def
      dataclass_bind_def PriceFunction_post_init_def Price2Function_post_init_def getattr_def)

lemma update_no_arguments_plain:
  "asdict F = fields_of F \<Longrightarrow> Function_update F [] = Inr (instance_of F)"
  by (cases F)
    (simp_all add: Function_update_def Function_params_def dict_merge_def dataclass_init_def
      dataclass_bind_def instance_of_def)

lemma update_one_argument_plain:
  "asdict F = fields_of F \<Longrightarrow> name \<in> set (map fst (fields_of F)) \<Longrightarrow>
   Function_update F [(name, v)] = Inr (class_of F, AList.update name v (fields_of F))"
  by (cases F)
    (auto simp: Function_update_def Function_params_def dict_merge_def dataclass_init_def
      dataclass_bind_def)

lemma update_unknown_name:
  "name \<notin> set (map fst (field_decls (class_of F))) \<Longrightarrow>
   Function_update F [(name, v)] = Inl TypeError"
proof -
  assume n: "name \<notin> set (map fst (field_decls (class_of F)))"
  have keys: "map fst (asdict F) = map fst (field_decls (class_of F))"
    by (cases F) simp_all
  have "name \<in> fst ` set (AList.update name v (asdict F))"
    by (simp add: dom_update)
  then have "\<not> list_all (\<lambda>k. k \<in> set (map fst (field_decls (class_of F))))
               (map fst (AList.update name v (asdict F)))"
    using n by (auto simp: list_all_iff)
  then show ?thesis
    by (simp add: Function_update_def Function_params_def dict_merge_def dataclass_init_def
        dataclass_bind_def)
qed

subsection \<open>Kernels and the invariant of FunctionVector\<close>

text \<open>
  Claim C2. For FunctionVectors \<open>u\<close> and \<open>v\<close> whose kernels are not equal,
  \<^verbatim>\<open>u._kwargs(v)\<close> fails with \<^verbatim>\<open>AssertionError\<close>, and so does every combination of
  \<open>u\<close> and \<open>v\<close> by the arithmetic of the base class, which takes the constructor
  arguments of its result from \<^verbatim>\<open>_kwargs\<close>: no result with either kernel is built.
\<close>

theorem unequal_kernels_fail:
  "kernel u \<noteq> kernel v \<Longrightarrow>
   FunctionVector_kwargs u (Some v) = Inl AssertionError
   \<and> DictVector_binop combine super_post_init Kernel_new u v = Inl AssertionError"
  by (simp add: FunctionVector_kwargs_def DictVector_binop_def)

theorem unequal_kernels_fail_witness:
  "kernel \<lparr>vec = [(VObj (QuadraticFunction 1 0 0), 1)], kernel = Some (1 :: nat)\<rparr>
     \<noteq> kernel \<lparr>vec = [(VObj (QuadraticFunction 1 0 0), 1)], kernel = Some 2\<rparr>
   \<and> FunctionVector_kwargs \<lparr>vec = [(VObj (QuadraticFunction 1 0 0), 1)], kernel = Some (1 :: nat)\<rparr>
        (Some \<lparr>vec = [(VObj (QuadraticFunction 1 0 0), 1)], kernel = Some 2\<rparr>)
      = Inl AssertionError
   \<and> DictVector_binop (@) Inr 0
        \<lparr>vec = [(VObj (QuadraticFunction 1 0 0), 1)], kernel = Some (1 :: nat)\<rparr>
        \<lparr>vec = [(VObj (QuadraticFunction 1 0 0), 1)], kernel = Some 2\<rparr>
      = Inl AssertionError"
proof -
  let ?u = "\<lparr>vec = [(VObj (QuadraticFunction 1 0 0), 1)], kernel = Some (1 :: nat)\<rparr>"
  let ?v = "\<lparr>vec = [(VObj (QuadraticFunction 1 0 0), 1)], kernel = Some (2 :: nat)\<rparr>"
  have h: "kernel ?u \<noteq> kernel ?v" by simp
  from unequal_kernels_fail [OF h, of "(@)" Inr 0] h show ?thesis by simp
qed

lemma post_init_invariant:
  "FunctionVector_post_init sp K0 s = Inr fv \<Longrightarrow> FunctionVector_invariant fv"
  by (cases "sp s")
    (auto simp: FunctionVector_post_init_def FunctionVector_invariant_def split: if_splits)

text \<open>
  Claim C10. A FunctionVector that the constructor returns has a kernel that is not
  \<^verbatim>\<open>None\<close> and only Function instances as keys, and so has the vector that
  \<^verbatim>\<open>wrap\<close> returns. A vector built with the kernel omitted or \<^verbatim>\<open>None\<close> receives
  \<^verbatim>\<open>Kernel()\<close>; a key that is not a Function (in the mapping the base class's
  \<^verbatim>\<open>__post_init__\<close> leaves) makes the construction fail with \<^verbatim>\<open>AssertionError\<close>,
  and so does wrapping a value that is not a Function. The other methods of the class
  read the vector and assign none of its fields.
\<close>

theorem constructed_vector_invariant:
  "(FunctionVector_init super_post_init Kernel_new v kern = Inr fv
      \<longrightarrow> FunctionVector_invariant fv)
   \<and> (FunctionVector_wrap super_post_init Kernel_new self func = Inr fv
      \<longrightarrow> FunctionVector_invariant fv)
   \<and> (super_post_init \<lparr>vec = v, kernel = None\<rparr> = Inr s
        \<and> list_all isinstance_Function (map fst (vec s)) \<and> kernel s = None
      \<longrightarrow> FunctionVector_init super_post_init Kernel_new v None
            = Inr (s\<lparr>kernel := Some Kernel_new\<rparr>))
   \<and> (super_post_init \<lparr>vec = v, kernel = kern\<rparr> = Inr s
        \<and> \<not> list_all isinstance_Function (map fst (vec s))
      \<longrightarrow> FunctionVector_init super_post_init Kernel_new v kern = Inl AssertionError)
   \<and> (\<not> isinstance_Function func
      \<longrightarrow> FunctionVector_wrap super_post_init Kernel_new self func = Inl AssertionError)"
  by (auto simp: FunctionVector_init_def FunctionVector_wrap_def post_init_invariant
      FunctionVector_post_init_def split: if_splits)

theorem constructed_vector_invariant_witness:
  "FunctionVector_init Inr (0 :: nat) [(VObj (QuadraticFunction 1 0 0), 2)] None
     = Inr \<lparr>vec = [(VObj (QuadraticFunction 1 0 0), 2)], kernel = Some 0\<rparr>
   \<and> FunctionVector_invariant \<lparr>vec = [(VObj (QuadraticFunction 1 0 0), 2)], kernel = Some (0 :: nat)\<rparr>
   \<and> FunctionVector_wrap Inr (0 :: nat) \<lparr>vec = [], kernel = Some 5\<rparr> (VObj (TrigFunction 1 1 0))
     = Inr \<lparr>vec = [(VObj (TrigFunction 1 1 0), 1)], kernel = Some 5\<rparr>
   \<and> FunctionVector_invariant \<lparr>vec = [(VObj (TrigFunction 1 1 0), 1)], kernel = Some (5 :: nat)\<rparr>
   \<and> FunctionVector_init Inr (0 :: nat) [(VNum 3, 2)] (Some 5) = Inl AssertionError
   \<and> FunctionVector_wrap Inr (0 :: nat) \<lparr>vec = [], kernel = Some 5\<rparr> (VNum 3)
     = Inl AssertionError"
proof -
  let ?q = "[(VObj (QuadraticFunction 1 0 0), 2 :: real)]"
  let ?t = "[(VObj (TrigFunction 1 1 0), 1 :: real)]"
  let ?s0 = "\<lparr>vec = [], kernel = Some (5 :: nat)\<rparr>"
  let ?sq = "\<lparr>vec = ?q, kernel = None :: nat option\<rparr>"
  have c: "(Inr :: nat FunctionVector \<Rightarrow> error + nat FunctionVector) ?sq = Inr ?sq
           \<and> list_all isinstance_Function (map fst (vec ?sq)) \<and> kernel ?sq = None"
    by simp
  from constructed_vector_invariant
         [of Inr "0 :: nat" ?q None "\<lparr>vec = ?q, kernel = Some 0\<rparr>" ?s0 "VNum 3" ?sq] c
  have "FunctionVector_init Inr (0 :: nat) ?q None = Inr (?sq\<lparr>kernel := Some 0\<rparr>)"
    by blast
  then have a: "FunctionVector_init Inr (0 :: nat) ?q None = Inr \<lparr>vec = ?q, kernel = Some 0\<rparr>"
    by simp
  have b: "FunctionVector_wrap Inr (0 :: nat) ?s0 (VObj (TrigFunction 1 1 0))
             = Inr \<lparr>vec = ?t, kernel = Some 5\<rparr>"
    by (simp add: FunctionVector_wrap_def FunctionVector_init_def FunctionVector_post_init_def)
  have d: "(Inr :: nat FunctionVector \<Rightarrow> error + nat FunctionVector)
             \<lparr>vec = [(VNum 3, 2)], kernel = Some 5\<rparr> = Inr \<lparr>vec = [(VNum 3, 2)], kernel = Some 5\<rparr>
           \<and> \<not> list_all isinstance_Function
                 (map fst (vec \<lparr>vec = [(VNum 3, 2)], kernel = Some (5 :: nat)\<rparr>))"
    by simp
  have e: "\<not> isinstance_Function (VNum 3)" by simp
  from constructed_vector_invariant
         [of Inr "0 :: nat" ?q None "\<lparr>vec = ?q, kernel = Some 0\<rparr>" ?s0 "VNum 3"] a
  have 1: "FunctionVector_invariant \<lparr>vec = ?q, kernel = Some (0 :: nat)\<rparr>" by blast
  from constructed_vector_invariant
         [of Inr "0 :: nat" ?q None "\<lparr>vec = ?t, kernel = Some 5\<rparr>" ?s0 "VObj (TrigFunction 1 1 0)"] b
  have 2: "FunctionVector_invariant \<lparr>vec = ?t, kernel = Some (5 :: nat)\<rparr>" by blast
  from constructed_vector_invariant
         [of Inr "0 :: nat" "[(VNum 3, 2)]" "Some 5" _ ?s0 "VNum 3"
             "\<lparr>vec = [(VNum 3, 2)], kernel = Some 5\<rparr>"] d e
  have 3: "FunctionVector_init Inr (0 :: nat) [(VNum 3, 2)] (Some 5) = Inl AssertionError"
    and 4: "FunctionVector_wrap Inr (0 :: nat) ?s0 (VNum 3) = Inl AssertionError"
    by blast+
  from a b 1 2 3 4 show ?thesis by simp
qed

subsection \<open>Goal seek\<close>

text \<open>
  On a function that is \<open>t\<close> from 0 on and \<open>-t\<close> below, with the tolerance and the
  step both \<open>t\<close>, two iterations from 0 lead to \<open>-t\<close> and back to 0, whatever the
  positive \<open>t\<close> is; the residual is \<open>t\<close> at both points, so the loop never leaves early.
\<close>

lemma sign_cycle:
  assumes "0 < t"
  shows "goalseek_loop (\<lambda>x. Inr (if 0 \<le> x then t else - t)) 0 t t (2 * k) 0 = Inr 0"
proof (induction k)
  case 0
  show ?case by simp
next
  case (Suc k)
  have "goalseek_loop (\<lambda>x. Inr (if 0 \<le> x then t else - t)) 0 t t (Suc (Suc (2 * k))) 0
        = goalseek_loop (\<lambda>x. Inr (if 0 \<le> x then t else - t)) 0 t t (2 * k) 0"
    using assms by (simp add: pdiv_def)
  with Suc.IH show ?case by simp
qed

lemma step_vector_f:
  "FunctionVector_f step_vector = (\<lambda>x. Inr (if 0 \<le> x then 1 / 10 ^ 6 else - (1 / 10 ^ 6)))"
  by (intro ext) (simp add: step_vector_def FunctionVector_f_def Function_call_def py_sum_def)

text \<open>
  Claim C4. The claim says that \<^verbatim>\<open>goalseek\<close> never returns an \<open>x\<close> whose residual
  \<open>\<bar>f(x) - target\<bar>\<close> is not below \<^verbatim>\<open>GS_TOLERANCE\<close>. The loop leaves early on
  \<^verbatim>\<open>< tolerance\<close>, but the test after the loop raises on \<^verbatim>\<open>> tolerance\<close> only, so
  a residual equal to the tolerance is returned. On the vector \<open>step_vector\<close> with
  target 0 and \<open>x0 = 0\<close> the 1000 iterations alternate between \<open>-10\<^sup>-\<^sup>6\<close> and 0, the
  residual is \<^verbatim>\<open>GS_TOLERANCE\<close> at both, and \<^verbatim>\<open>goalseek\<close> returns 0.
\<close>

theorem goalseek_returns_at_the_tolerance:
  "FunctionVector_goalseek step_vector 0 0 = Inr 0
   \<and> FunctionVector_f step_vector 0 = Inr GS_TOLERANCE
   \<and> \<not> \<bar>GS_TOLERANCE - 0\<bar> < GS_TOLERANCE"
proof -
  have e: "GS_ITERATIONS = 2 * 500" by (simp add: GS_ITERATIONS_def)
  have t: "(0 :: real) < 1 / 10 ^ 6" by simp
  have "goalseek_loop (FunctionVector_f step_vector) 0 (1 / 10 ^ 6) (1 / 10 ^ 6)
          GS_ITERATIONS 0 = Inr 0"
    unfolding step_vector_f e by (rule sign_cycle [OF t])
  then show ?thesis
    by (simp add: FunctionVector_goalseek_def GS_TOLERANCE_def GS_H_def)
      (simp add: step_vector_f)
qed

text \<open>
  Other exceptions leave \<^verbatim>\<open>goalseek\<close> as they are: on a constant function the slope
  estimate is 0 and the Newton step divides by it.
\<close>

lemma goalseek_flat_function:
  "FunctionVector_goalseek \<lparr>vec = [(VObj (QuadraticFunction 0 0 5), 1)], kernel = Some (0 :: nat)\<rparr> 0 1
   = Inl ZeroDivisionError"
  by (simp add: FunctionVector_goalseek_def GS_ITERATIONS_def FunctionVector_f_def
      Function_call_def py_sum_def pdiv_def numeral_eq_Suc GS_ETA_def)

text \<open>
  \<^verbatim>\<open>minimize1\<close> ends with the opposite test, \<^verbatim>\<open>< tolerance\<close> to return and the
  convergence error otherwise: what it returns is below the tolerance.
\<close>

lemma minimize1_returns_below_tolerance:
  assumes "FunctionVector_minimize1 self x0 learning_rate iterations tolerance = Inr x"
  shows "\<exists>q. FunctionVector_p self x = Inr q
             \<and> \<bar>q\<bar> < (case tolerance of None \<Rightarrow> MM_TOLERANCE | Some v \<Rightarrow> v)"
proof -
  let ?lr = "case learning_rate of None \<Rightarrow> MM_LEARNING_RATE | Some v \<Rightarrow> v"
  let ?tol = "case tolerance of None \<Rightarrow> MM_TOLERANCE | Some v \<Rightarrow> v"
  let ?n = "nat (iterations_or iterations MM_ITERATIONS)"
  from assms obtain y where y: "minimize1_loop self ?lr ?tol ?n x0 = Inr y"
    by (cases "minimize1_loop self ?lr ?tol ?n x0")
      (simp_all add: FunctionVector_minimize1_def Let_def)
  with assms obtain q where q: "FunctionVector_p self y = Inr q"
    by (cases "FunctionVector_p self y") (simp_all add: FunctionVector_minimize1_def Let_def)
  with assms y have "\<bar>q\<bar> < ?tol \<and> x = y"
    by (simp add: FunctionVector_minimize1_def Let_def split: if_splits)
  with q show ?thesis by blast
qed

text \<open>
  \<^verbatim>\<open>minimize1\<close> keeps a tolerance of 0, testing \<^verbatim>\<open>is None\<close>; with the strict test
  such a call cannot return.
\<close>

lemma minimize1_zero_tolerance_never_returns:
  "FunctionVector_minimize1 self x0 learning_rate iterations (Some 0) \<noteq> Inr x"
proof
  assume "FunctionVector_minimize1 self x0 learning_rate iterations (Some 0) = Inr x"
  from minimize1_returns_below_tolerance [OF this] show False by simp
qed

subsection \<open>Gradient descent\<close>
























text \<open>
  With a negative budget the loop body never runs and the \<^verbatim>\<open>return\<close> of
  \<^verbatim>\<open>_minimize_lst\<close> reads variables that were never assigned.
\<close>

lemma minimize_negative_budget:
  "FunctionVector_minimize constant_zero (X0_list [1]) None (Some (- 1)) None None False
     = Inl UnboundLocalError"
  by (simp add: FunctionVector_minimize_def constant_zero_def iterations_or_def minimize_lst_def
      Let_def)

end
